theory Spec2Isabelle
  imports Main "HOL-Library.Word"
begin

section \<open>Fallout4.esm patcher: version resolution and guarded patch application\<close>

text \<open>
  A shallow embedding of class \<open>ESMPatcher\<close> of \<open>esm_patcher.py\<close>: the two version
  tables, the fingerprinting helper, the legacy and the current version resolver, the
  patch lookup, and the three operations that touch the file system (backup, patch
  application, restore), followed by the sequence in which the command line entry point
  chains backup and patch application.

  Python integers are \<open>int\<close>. A Python \<open>str\<close> is a \<open>string\<close> holding its UTF-8 bytes. A
  Python \<open>dict\<close> whose key order is observable (\<open>list(d.keys())\<close>) is an association
  list with distinct keys, in insertion order.
\<close>

subsection \<open>Rendering integers as the f-strings do\<close>

definition digit :: "nat \<Rightarrow> char" where
  "digit d = ''0123456789'' ! d"

text \<open>\<open>str(n)\<close> for a natural number; \<open>digit\<close> is only applied below ten.\<close>

fun str_nat :: "nat \<Rightarrow> string" where
  "str_nat n = (if n < 10 then [digit n] else str_nat (n div 10) @ [digit (n mod 10)])"

declare str_nat.simps [simp del]

definition str_int :: "int \<Rightarrow> string" where
  "str_int i = (if i < 0 then ''-'' @ str_nat (nat (- i)) else str_nat (nat i))"

text \<open>The grouping of the format specifier \<open>,\<close>: a comma before every block of three
  digits, counted from the right.\<close>

function commas :: "string \<Rightarrow> string" where
  "commas s =
     (if length s \<le> 3 then s
      else commas (take (length s - 3) s) @ '','' @ drop (length s - 3) s)"
  by pat_completeness auto
termination
  by (relation "measure length") auto

declare commas.simps [simp del]

definition fmt_commas :: "int \<Rightarrow> string" where
  "fmt_commas i =
     (if i < 0 then ''-'' @ commas (str_nat (nat (- i))) else commas (str_nat (nat i)))"

text \<open>
  \<open>f"{n/(1024*1024):.2f}"\<close>. The quotient of an integer below \<open>2^53\<close> by \<open>2^20\<close> is an
  exact double, and the format rounds the exact value to hundredths, ties to even; the
  model computes that with integers (it is exact for every size below \<open>2^53\<close> bytes).
\<close>

definition hundredths_mb :: "nat \<Rightarrow> nat" where
  "hundredths_mb n =
     (let q = (n * 100) div 1048576; r = (n * 100) mod 1048576
      in if 1048576 < 2 * r \<or> (2 * r = 1048576 \<and> odd q) then q + 1 else q)"

definition fmt_mb :: "int \<Rightarrow> string" where
  "fmt_mb i =
     (let h = hundredths_mb (nat \<bar>i\<bar>)
      in (if i < 0 then ''-'' else '''') @ str_nat (h div 100) @ ''.''
           @ [digit (h mod 100 div 10), digit (h mod 10)])"

subsection \<open>The version tables\<close>

type_synonym path = string
type_synonym bytes = "8 word list"

text \<open>One value of \<open>ESM_VERSIONS\<close>: the keys \<open>version\<close>, \<open>display\<close> and \<open>patches_to\<close>.\<close>

record esm_version =
  e_version :: string
  e_display :: string
  e_patches_to :: "(string \<times> string) list"

definition VERSION_NG :: string where
  "VERSION_NG = ''nextgen''"

definition VERSION_OLD :: string where
  "VERSION_OLD = ''1.10.163''"

definition ESM_VERSIONS :: "(int \<times> esm_version) list" where
  "ESM_VERSIONS =
     [(330777465,
         \<lparr>e_version = ''nextgen'', e_display = ''Next-Gen'',
          e_patches_to = [(''1.10.163'', ''fallout4_323025.xdelta'')]\<rparr>),
      (330553163,
         \<lparr>e_version = ''vr'', e_display = ''Fallout 4 VR'',
          e_patches_to = [(''1.10.163'', ''fallout4_322806.xdelta''),
                          (''nextgen'', ''fallout4_vr_to_ng.xdelta'')]\<rparr>),
      (330745373,
         \<lparr>e_version = ''1.10.163'', e_display = ''1.10.163 (Old-Gen)'',
          e_patches_to = [(''nextgen'', ''fallout4_old_to_ng.xdelta'')]\<rparr>)]"

text \<open>One value of the legacy table \<open>PATCH_MAPPINGS\<close>.\<close>

record patch_mapping =
  m_patch :: string
  m_description :: string
  m_md5 :: string

definition PATCH_MAPPINGS :: "(int \<times> patch_mapping) list" where
  "PATCH_MAPPINGS =
     [(330777465,
         \<lparr>m_patch = ''fallout4_323025.xdelta'', m_description = ''Next-Gen'',
          m_md5 = ''a5c13fb8c0e2e9c7c0c8e6f9d4b5a3e2''\<rparr>),
      (330553163,
         \<lparr>m_patch = ''fallout4_322806.xdelta'', m_description = ''Fallout 4 VR'',
          m_md5 = ''b7d24fa9e1d3c8b6a4f5e7c9d2a1b3c4''\<rparr>)]"

text \<open>The local list \<open>known_patched_sizes\<close>, the same in both resolvers.\<close>

definition known_patched_sizes :: "(int \<times> string) list" where
  "known_patched_sizes =
     [(61741779, ''VR-compatible version (58.9 MB)''),
      (61598851, ''VR-compatible version (58.7 MB)'')]"

subsection \<open>The file system and \<open>get_file_info\<close>\<close>

text \<open>
  The file system maps a path to the bytes of the file there, for every file that can
  be opened and read.
\<close>

type_synonym fs = "path \<rightharpoonup> bytes"

text \<open>
  A path can also hold an entry that exists but that \<open>open\<close> cannot read as a file: a
  directory, a file the process may not open. The map \<open>unopenable\<close> gives, for such a
  path, the text of the error that \<open>open\<close> raises there (\<open>IsADirectoryError\<close> and
  \<open>PermissionError\<close> are both an \<open>OSError\<close>, here \<open>IOError\<close>). No caller of \<open>get_file_info\<close>
  catches it, so it leaves every resolver as an exception. A path is meant to be in at
  most one of the two maps; an entry of the file system is read as a file first.
\<close>

datatype py_error = KeyError string | IOError string

text \<open>
  The dictionary \<open>get_file_info\<close> returns: \<open>{"exists": False}\<close>, or \<open>exists\<close>, \<open>size\<close> and
  \<open>path\<close>. Its keys \<open>size_mb\<close> (a float) and \<open>md5\<close> (the digest) are left out: no resolver
  reads them.
\<close>

datatype file_info = Missing | Found (fi_size: int) (fi_path: path)

text \<open>
  \<open>os.path.exists\<close> holds for a file and for an unopenable entry alike. The size is read,
  then the file is opened and read in chunks for the digest: there the error is raised.
\<close>

definition get_file_info :: "(path \<rightharpoonup> string) \<Rightarrow> fs \<Rightarrow> path \<Rightarrow> py_error + file_info" where
  "get_file_info unopenable files file_path =
     (case files file_path of
        Some content \<Rightarrow> Inr (Found (int (length content)) file_path)
      | None \<Rightarrow>
          (case unopenable file_path of
             None \<Rightarrow> Inr Missing
           | Some msg \<Rightarrow> Inl (IOError msg)))"

subsection \<open>The legacy resolver\<close>

text \<open>The loop over \<open>known_patched_sizes\<close>: the description of the first reference size
  less than 1000 bytes away.\<close>

fun first_patched :: "int \<Rightarrow> (int \<times> string) list \<Rightarrow> string option" where
  "first_patched file_size [] = None"
| "first_patched file_size ((size', description) # rest) =
     (if \<bar>file_size - size'\<bar> < 1000 then Some description
      else first_patched file_size rest)"

definition identify_esm_version ::
  "(path \<rightharpoonup> string) \<Rightarrow> fs \<Rightarrow> path \<Rightarrow> py_error + bool \<times> string \<times> patch_mapping option" where
  "identify_esm_version unopenable files esm_path =
     (case get_file_info unopenable files esm_path of
        Inl e \<Rightarrow> Inl e
      | Inr Missing \<Rightarrow> Inr (False, ''File does not exist'', None)
      | Inr (Found file_size _) \<Rightarrow>
          (case map_of PATCH_MAPPINGS file_size of
             Some patch_info \<Rightarrow>
               Inr (True, ''Next-Gen ESM detected ('' @ m_description patch_info @ '')'',
                    Some patch_info)
           | None \<Rightarrow>
               (case first_patched file_size known_patched_sizes of
                  Some description \<Rightarrow> Inr (False, ''Already patched: '' @ description, None)
                | None \<Rightarrow>
                    Inr (False,
                         ''Unknown ESM version (size: '' @ fmt_commas file_size @ '' bytes)'',
                         None))))"

subsection \<open>The current resolver\<close>

text \<open>
  The dictionary \<open>detect_esm_version\<close> returns. The key \<open>size\<close> is missing when the file
  does not exist; \<open>version\<close> may be \<open>None\<close>.
\<close>

record version_info =
  vi_exists :: bool
  vi_size :: "int option"
  vi_version :: "string option"
  vi_display :: string
  vi_available_targets :: "string list"
  vi_patches :: "(string \<times> string) list"

definition detect_esm_version ::
  "(path \<rightharpoonup> string) \<Rightarrow> fs \<Rightarrow> path \<Rightarrow> py_error + version_info" where
  "detect_esm_version unopenable files esm_path =
     (case get_file_info unopenable files esm_path of
        Inl e \<Rightarrow> Inl e
      | Inr Missing \<Rightarrow>
          Inr \<lparr>vi_exists = False, vi_size = None, vi_version = None,
               vi_display = ''File does not exist'',
               vi_available_targets = [], vi_patches = []\<rparr>
      | Inr (Found file_size _) \<Rightarrow>
          (case map_of ESM_VERSIONS file_size of
             Some version_info \<Rightarrow>
               Inr \<lparr>vi_exists = True, vi_size = Some file_size,
                    vi_version = Some (e_version version_info),
                    vi_display = e_display version_info,
                    vi_available_targets = map fst (e_patches_to version_info),
                    vi_patches = e_patches_to version_info\<rparr>
           | None \<Rightarrow>
               (case first_patched file_size known_patched_sizes of
                  Some description \<Rightarrow>
                    Inr \<lparr>vi_exists = True, vi_size = Some file_size,
                         vi_version = Some ''patched'', vi_display = description,
                         vi_available_targets = [], vi_patches = []\<rparr>
                | None \<Rightarrow>
                    Inr \<lparr>vi_exists = True, vi_size = Some file_size, vi_version = None,
                         vi_display =
                           ''Unknown version ('' @ fmt_commas file_size @ '' bytes / ''
                             @ fmt_mb file_size @ '' MB)'',
                         vi_available_targets = [], vi_patches = []\<rparr>)))"

subsection \<open>The patch for a target\<close>

text \<open>The dictionary \<open>get_patch_for_target\<close> returns.\<close>

record patch_info =
  p_patch :: string
  p_description :: string
  p_source_version :: "string option"
  p_target_version :: string

text \<open>The separator of the description, byte for byte as the source file has it between
  the two fields (it is not ASCII).\<close>

definition arrow :: string where
  "arrow = [CHR '' '', CHR 0xC3, CHR 0xA2, CHR 0xE2, CHR 0x80, CHR 0xA0,
            CHR 0xE2, CHR 0x80, CHR 0x99, CHR '' '']"

text \<open>Subscripting a dictionary raises \<open>KeyError\<close> on a missing key.\<close>

definition subscript :: "(string \<times> 'v) list \<Rightarrow> string \<Rightarrow> py_error + 'v" where
  "subscript d k = (case map_of d k of None \<Rightarrow> Inl (KeyError k) | Some v \<Rightarrow> Inr v)"

definition get_patch_for_target ::
  "(path \<rightharpoonup> string) \<Rightarrow> fs \<Rightarrow> path \<Rightarrow> string \<Rightarrow> py_error + patch_info option" where
  "get_patch_for_target unopenable files esm_path target_version =
     (case detect_esm_version unopenable files esm_path of
        Inl e \<Rightarrow> Inl e
      | Inr version_info \<Rightarrow>
          if target_version \<in> set (map fst (vi_patches version_info))
          then (case subscript (vi_patches version_info) target_version of
                  Inl e \<Rightarrow> Inl e
                | Inr file \<Rightarrow>
                    Inr (Some \<lparr>p_patch = file,
                               p_description = vi_display version_info @ arrow @ target_version,
                               p_source_version = vi_version version_info,
                               p_target_version = target_version\<rparr>))
          else Inr None)"

subsection \<open>File operations of the standard library\<close>

text \<open>
  What \<open>str(e)\<close> of a caught exception stands for. The text of an operating system error
  depends on the platform, so a caught exception is kept as a value.
\<close>

datatype exc = FileNotFoundError path | SameFileError path path | OSError string

text \<open>The second component of the pairs the operations return: a fixed or formatted text,
  or \<open>str(e)\<close>.\<close>

datatype reply = Text string | StrExc exc

text \<open>\<open>os.remove\<close> and \<open>os.rename\<close> fail here only when the file is missing.\<close>

definition os_remove :: "fs \<Rightarrow> path \<Rightarrow> exc + fs" where
  "os_remove files p =
     (case files p of None \<Rightarrow> Inl (FileNotFoundError p) | Some _ \<Rightarrow> Inr (files(p := None)))"

definition os_rename :: "fs \<Rightarrow> path \<Rightarrow> path \<Rightarrow> exc + fs" where
  "os_rename files src dst =
     (case files src of
        None \<Rightarrow> Inl (FileNotFoundError src)
      | Some content \<Rightarrow> Inr ((files(src := None))(dst \<mapsto> content)))"

text \<open>
  \<open>shutil.copy2\<close> can fail for reasons outside the program (a full disk, a locked file).
  Its outcome is a parameter: it succeeds, or it raises with the text of the error after
  it left the destination alone (\<open>None\<close>) or wrote a truncated copy there.
\<close>

datatype copy_outcome = CopyOk | CopyFails string "bytes option"

definition copy2 :: "copy_outcome \<Rightarrow> fs \<Rightarrow> path \<Rightarrow> path \<Rightarrow> exc option \<times> fs" where
  "copy2 outcome files src dst =
     (case files src of
        None \<Rightarrow> (Some (FileNotFoundError src), files)
      | Some content \<Rightarrow>
          if src = dst then (Some (SameFileError src dst), files)
          else (case outcome of
                  CopyOk \<Rightarrow> (None, files(dst \<mapsto> content))
                | CopyFails msg None \<Rightarrow> (Some (OSError msg), files)
                | CopyFails msg (Some part) \<Rightarrow> (Some (OSError msg), files(dst \<mapsto> part))))"

text \<open>
  The external tool run by \<open>subprocess.run\<close> is opaque. It is called with the asset as
  its source and \<open>temp_output\<close> as its output, and writes to its output only: it leaves the
  output path alone, removes the file there, or leaves a file with some bytes. The run
  ends with a return code and the captured standard error, is killed at the timeout, or
  cannot be started at all.
\<close>

datatype tool_effect = Untouched | Removed | Wrote bytes

datatype run_outcome =
  Completed int string tool_effect
| TimeoutExpired tool_effect
| RunError string

definition tool_output :: "tool_effect \<Rightarrow> fs \<Rightarrow> path \<Rightarrow> fs" where
  "tool_output eff files out =
     (case eff of
        Untouched \<Rightarrow> files
      | Removed \<Rightarrow> files(out := None)
      | Wrote content \<Rightarrow> files(out \<mapsto> content))"

subsection \<open>Backup, patch application, restore\<close>

text \<open>The state the operations change: the files, and the attribute \<open>backup_created\<close> of
  the patcher object.\<close>

record world =
  files :: fs
  backup_created :: bool

text \<open>\<open>answer\<close> is what the user replies to the dialog \<open>Overwrite it?\<close>; the dialog is
  shown only when a backup exists.\<close>

definition create_backup ::
  "bool \<Rightarrow> copy_outcome \<Rightarrow> world \<Rightarrow> path \<Rightarrow> (bool \<times> reply) \<times> world" where
  "create_backup answer outcome w esm_path =
     (let backup_path = esm_path @ ''.backup''
      in if files w backup_path \<noteq> None \<and> \<not> answer
         then ((False, Text ''Backup cancelled by user''), w)
         else (case copy2 outcome (files w) esm_path backup_path of
                 (None, files') \<Rightarrow>
                   ((True, Text backup_path), w\<lparr>files := files', backup_created := True\<rparr>)
               | (Some e, files') \<Rightarrow> ((False, StrExc e), w\<lparr>files := files'\<rparr>)))"

text \<open>
  The two exception handlers of \<open>apply_patch\<close> start with the same clean-up. In
  \<open>apply_patch\<close> itself, \<open>run\<close> is the outcome of \<open>subprocess.run\<close> on the command line built
  from the asset, the patch and the temporary output; the command line, the log and the
  advisory progress callback are left out.
\<close>

definition remove_if_exists :: "fs \<Rightarrow> path \<Rightarrow> fs" where
  "remove_if_exists fsys p = (if fsys p \<noteq> None then fsys(p := None) else fsys)"

definition apply_patch ::
  "run_outcome \<Rightarrow> world \<Rightarrow> path \<Rightarrow> patch_info \<Rightarrow> (bool \<times> reply) \<times> world" where
  "apply_patch run w esm_path patch_info =
     (let temp_output = esm_path @ ''.patched''
      in case run of
           RunError msg \<Rightarrow>
             ((False, StrExc (OSError msg)),
              w\<lparr>files := remove_if_exists (files w) temp_output\<rparr>)
         | TimeoutExpired eff \<Rightarrow>
             ((False, Text ''Patching process timed out''),
              w\<lparr>files := remove_if_exists (tool_output eff (files w) temp_output) temp_output\<rparr>)
         | Completed returncode stderr eff \<Rightarrow>
             (let files1 = tool_output eff (files w) temp_output
              in if returncode \<noteq> 0
                 then ((False,
                        Text (''xdelta3 failed with return code '' @ str_int returncode
                              @ (if stderr \<noteq> [] then [CHR 0x0A] @ ''Error: '' @ stderr else []))),
                       w\<lparr>files := files1\<rparr>)
                 else (case files1 temp_output of
                         None \<Rightarrow>
                           ((False, Text ''Patched file was not created''), w\<lparr>files := files1\<rparr>)
                       | Some patched \<Rightarrow>
                           (let patched_size = int (length patched)
                            in if patched_size < 50000000
                               then ((False,
                                      Text (''Patched file is too small ('' @ str_int patched_size
                                            @ '' bytes)'')),
                                     w\<lparr>files := files1(temp_output := None)\<rparr>)
                               else (case os_remove files1 esm_path of
                                       Inl e \<Rightarrow>
                                         ((False, StrExc e),
                                          w\<lparr>files := remove_if_exists files1 temp_output\<rparr>)
                                     | Inr files2 \<Rightarrow>
                                         (case os_rename files2 temp_output esm_path of
                                            Inl e \<Rightarrow>
                                              ((False, StrExc e),
                                               w\<lparr>files := remove_if_exists files2 temp_output\<rparr>)
                                          | Inr files3 \<Rightarrow>
                                              ((True,
                                                Text (''Patch applied successfully!'' @ [CHR 0x0A]
                                                      @ ''New file size: '' @ fmt_commas patched_size
                                                      @ '' bytes ('' @ fmt_mb patched_size @ '' MB)'')),
                                               w\<lparr>files := files3\<rparr>)))))))"

definition restore_backup :: "copy_outcome \<Rightarrow> world \<Rightarrow> path \<Rightarrow> (bool \<times> reply) \<times> world" where
  "restore_backup outcome w esm_path =
     (let backup_path = esm_path @ ''.backup''
      in case files w backup_path of
           None \<Rightarrow> ((False, Text ''No backup file found''), w)
         | Some _ \<Rightarrow>
             (case (if files w esm_path \<noteq> None then os_remove (files w) esm_path
                    else Inr (files w)) of
                Inl e \<Rightarrow> ((False, StrExc e), w)
              | Inr files1 \<Rightarrow>
                  (case copy2 outcome files1 backup_path esm_path of
                     (None, files2) \<Rightarrow>
                       ((True, Text ''Successfully restored from backup''), w\<lparr>files := files2\<rparr>)
                   | (Some e, files2) \<Rightarrow> ((False, StrExc e), w\<lparr>files := files2\<rparr>))))"

subsection \<open>The transaction of the command line entry point\<close>

text \<open>
  \<open>main\<close> creates the backup and stops with \<open>Backup failed\<close> when that fails; otherwise it
  applies the patch and ends with \<open>Success!\<close> or \<open>Patch failed\<close>.
\<close>

datatype transaction_end = Backup_failed reply | Patch_failed reply | Success reply

definition patch_transaction ::
  "bool \<Rightarrow> copy_outcome \<Rightarrow> run_outcome \<Rightarrow> world \<Rightarrow> path \<Rightarrow> patch_info
     \<Rightarrow> transaction_end \<times> world" where
  "patch_transaction answer outcome run w esm_path patch_info =
     (case create_backup answer outcome w esm_path of
        ((False, backup_msg), w1) \<Rightarrow> (Backup_failed backup_msg, w1)
      | ((True, backup_msg), w1) \<Rightarrow>
          (case apply_patch run w1 esm_path patch_info of
             ((True, patch_msg), w2) \<Rightarrow> (Success patch_msg, w2)
           | ((False, patch_msg), w2) \<Rightarrow> (Patch_failed patch_msg, w2)))"

subsection \<open>Files for the examples\<close>

text \<open>A file of \<open>n\<close> zero bytes: the resolvers read nothing of a file but its size.\<close>

definition zeros :: "nat \<Rightarrow> bytes" where
  "zeros n = replicate n 0"

section \<open>Properties\<close>

subsection \<open>Auxiliary facts\<close>

lemma length_zeros [simp]: "length (zeros n) = n"
  by (simp add: zeros_def)

lemma registry_keys_distinct: "distinct (map fst ESM_VERSIONS)"
  by (simp add: ESM_VERSIONS_def)

lemma backup_path_neq [simp]: "p @ ''.backup'' \<noteq> p" "p \<noteq> p @ ''.backup''"
  by simp_all

lemma temp_path_neq [simp]: "p @ ''.patched'' \<noteq> p" "p \<noteq> p @ ''.patched''"
  by simp_all

text \<open>The backup writes to the backup path only.\<close>

lemma create_backup_frame:
  "q \<noteq> p @ ''.backup'' \<Longrightarrow> files (snd (create_backup answer outcome w p)) q = files w q"
  by (auto simp: create_backup_def Let_def copy2_def
      split: option.splits copy_outcome.splits prod.splits)

lemma tool_output_frame:
  "q \<noteq> out \<Longrightarrow> tool_output eff fsys out q = fsys q"
  by (simp add: tool_output_def split: tool_effect.splits)

lemma remove_if_exists_eq: "remove_if_exists fsys p = fsys(p := None)"
  by (auto simp: remove_if_exists_def)

text \<open>Whenever \<open>apply_patch\<close> reports a failure, the asset is what it was. (The failure of
  the replacement itself is included: here \<open>os.remove\<close> fails only on a missing asset.)\<close>

lemma apply_patch_failure_keeps_asset:
  assumes "\<not> fst (fst (apply_patch run w p pinfo))"
  shows "files (snd (apply_patch run w p pinfo)) p = files w p"
  using assms
  by (auto simp: apply_patch_def Let_def remove_if_exists_eq tool_output_frame
      os_remove_def os_rename_def
      split: run_outcome.splits option.splits if_splits sum.splits)

lemma apply_patch_nonzero:
  "rc \<noteq> 0 \<Longrightarrow> \<not> fst (fst (apply_patch (Completed rc err eff) w p pinfo))"
  by (simp add: apply_patch_def Let_def)

lemma apply_patch_timeout:
  "apply_patch (TimeoutExpired eff) w p pinfo =
     ((False, Text ''Patching process timed out''),
      w\<lparr>files := (tool_output eff (files w) (p @ ''.patched''))(p @ ''.patched'' := None)\<rparr>)"
  by (simp add: apply_patch_def Let_def remove_if_exists_eq)

lemma apply_patch_implausible:
  assumes "case tool_output eff (files w) (p @ ''.patched'') (p @ ''.patched'') of
             None \<Rightarrow> True | Some out \<Rightarrow> int (length out) < 50000000"
  shows "\<not> fst (fst (apply_patch (Completed 0 err eff) w p pinfo))"
  using assms by (simp add: apply_patch_def Let_def split: option.splits)

text \<open>The resolver returns a dictionary wherever the path holds a readable file or
  nothing.\<close>

lemma detect_returns:
  "fsys p \<noteq> None \<or> unopenable p = None \<Longrightarrow> \<exists>v. detect_esm_version unopenable fsys p = Inr v"
  by (auto simp: detect_esm_version_def get_file_info_def split: option.splits)

subsection \<open>The patch transaction\<close>

text \<open>
  C1. A transaction that fails before the original is replaced leaves the asset as it
  was: when the backup fails, when the tool ends with a non-zero return code, when the
  tool is killed at the timeout, or when the output is missing or smaller than 50000000
  bytes, the transaction ends in a failure and the bytes at the asset path are those
  from before the call. After a timeout nothing is left at the temporary output path.
\<close>

theorem failure_before_commit_keeps_asset:
  assumes "\<not> fst (fst (create_backup answer outcome w p))
      \<or> (\<exists>rc err eff. run = Completed rc err eff \<and> rc \<noteq> 0)
      \<or> (\<exists>eff. run = TimeoutExpired eff)
      \<or> (\<exists>err eff. run = Completed 0 err eff \<and>
            (case tool_output eff (files (snd (create_backup answer outcome w p)))
                    (p @ ''.patched'') (p @ ''.patched'') of
               None \<Rightarrow> True
             | Some out \<Rightarrow> int (length out) < 50000000))"
  shows "(\<exists>msg. fst (patch_transaction answer outcome run w p pinfo) = Backup_failed msg
              \<or> fst (patch_transaction answer outcome run w p pinfo) = Patch_failed msg)
       \<and> files (snd (patch_transaction answer outcome run w p pinfo)) p = files w p
       \<and> (fst (fst (create_backup answer outcome w p)) \<and> (\<exists>eff. run = TimeoutExpired eff)
            \<longrightarrow> files (snd (patch_transaction answer outcome run w p pinfo)) (p @ ''.patched'')
                  = None)"
proof (cases "fst (fst (create_backup answer outcome w p))")
  case False
  then obtain msg w1 where b: "create_backup answer outcome w p = ((False, msg), w1)"
    by (cases "create_backup answer outcome w p") auto
  have "files w1 p = files w p"
    using create_backup_frame [of p p answer outcome w] b by simp
  with b False show ?thesis
    by (simp add: patch_transaction_def)
next
  case True
  then obtain msg w1 where b: "create_backup answer outcome w p = ((True, msg), w1)"
    by (cases "create_backup answer outcome w p") auto
  have w1: "files w1 p = files w p"
    using create_backup_frame [of p p answer outcome w] b by simp
  obtain ok pmsg w2 where a: "apply_patch run w1 p pinfo = ((ok, pmsg), w2)"
    by (cases "apply_patch run w1 p pinfo") auto
  from assms True b have "\<not> fst (fst (apply_patch run w1 p pinfo))"
    using apply_patch_nonzero apply_patch_timeout apply_patch_implausible by fastforce
  with a have nok: "\<not> ok" by simp
  with a have "files w2 p = files w1 p"
    using apply_patch_failure_keeps_asset [of run w1 p pinfo] by simp
  moreover have "(\<exists>eff. run = TimeoutExpired eff) \<longrightarrow> files w2 (p @ ''.patched'') = None"
    using a by (auto simp: apply_patch_timeout)
  ultimately show ?thesis
    using a b nok w1 by (simp add: patch_transaction_def)
qed

text \<open>C1 at a timeout: the backup is made, the tool has written two bytes when it is
  killed; the asset is intact and the two bytes are gone.\<close>

theorem failure_before_commit_keeps_asset_witness:
  "fst (patch_transaction True CopyOk (TimeoutExpired (Wrote [1, 2]))
          \<lparr>files = [''Fallout4.esm'' \<mapsto> zeros 330777465], backup_created = False\<rparr>
          ''Fallout4.esm''
          \<lparr>p_patch = ''fallout4_323025.xdelta'',
           p_description = ''Next-Gen'' @ arrow @ ''1.10.163'',
           p_source_version = Some ''nextgen'', p_target_version = ''1.10.163''\<rparr>)
     = Patch_failed (Text ''Patching process timed out'') \<and>
   files (snd (patch_transaction True CopyOk (TimeoutExpired (Wrote [1, 2]))
          \<lparr>files = [''Fallout4.esm'' \<mapsto> zeros 330777465], backup_created = False\<rparr>
          ''Fallout4.esm''
          \<lparr>p_patch = ''fallout4_323025.xdelta'',
           p_description = ''Next-Gen'' @ arrow @ ''1.10.163'',
           p_source_version = Some ''nextgen'', p_target_version = ''1.10.163''\<rparr>))
       ''Fallout4.esm''
     = Some (zeros 330777465) \<and>
   files (snd (patch_transaction True CopyOk (TimeoutExpired (Wrote [1, 2]))
          \<lparr>files = [''Fallout4.esm'' \<mapsto> zeros 330777465], backup_created = False\<rparr>
          ''Fallout4.esm''
          \<lparr>p_patch = ''fallout4_323025.xdelta'',
           p_description = ''Next-Gen'' @ arrow @ ''1.10.163'',
           p_source_version = Some ''nextgen'', p_target_version = ''1.10.163''\<rparr>))
       ''Fallout4.esm.patched''
     = None"
  using failure_before_commit_keeps_asset
          [of True CopyOk
              "\<lparr>files = [''Fallout4.esm'' \<mapsto> zeros 330777465], backup_created = False\<rparr>"
              "''Fallout4.esm''" "TimeoutExpired (Wrote [1, 2])"
              "\<lparr>p_patch = ''fallout4_323025.xdelta'',
                p_description = ''Next-Gen'' @ arrow @ ''1.10.163'',
                p_source_version = Some ''nextgen'', p_target_version = ''1.10.163''\<rparr>"]
  by (simp add: patch_transaction_def create_backup_def copy2_def apply_patch_def
      remove_if_exists_def tool_output_def Let_def)

text \<open>
  C2. When the tool ends with a non-zero return code, \<open>apply_patch\<close> reports the failure
  and the asset is intact, but it returns without removing the temporary output, unlike
  its timeout, too-small and exception paths. Here the tool wrote two bytes before it
  gave up with return code 1: the two bytes stay at \<open>Fallout4.esm.patched\<close>.
\<close>

theorem nonzero_exit_leaves_temp_output:
  "apply_patch (Completed 1 ''xdelta3: target window checksum mismatch'' (Wrote [1, 2]))
     \<lparr>files = [''Fallout4.esm'' \<mapsto> zeros 330777465], backup_created = True\<rparr>
     ''Fallout4.esm''
     \<lparr>p_patch = ''fallout4_323025.xdelta'',
      p_description = ''Next-Gen'' @ arrow @ ''1.10.163'',
      p_source_version = Some ''nextgen'', p_target_version = ''1.10.163''\<rparr> =
   ((False, Text (''xdelta3 failed with return code 1'' @ [CHR 0x0A]
                   @ ''Error: xdelta3: target window checksum mismatch'')),
    \<lparr>files = [''Fallout4.esm'' \<mapsto> zeros 330777465, ''Fallout4.esm.patched'' \<mapsto> [1, 2]],
     backup_created = True\<rparr>)"
  by (simp add: apply_patch_def tool_output_def str_int_def str_nat.simps digit_def Let_def)

subsection \<open>Version resolution\<close>

text \<open>
  C3. For every byte size that is a key of \<open>ESM_VERSIONS\<close>, \<open>detect_esm_version\<close> on an
  existing file of that size returns exactly the version, the display label and the
  targets of that entry, with the entry's patches.
\<close>

theorem resolve_registry_entry:
  assumes "map_of ESM_VERSIONS sz = Some e"
    and "fsys p = Some content"
    and "int (length content) = sz"
  shows "detect_esm_version unopenable fsys p =
    Inr \<lparr>vi_exists = True, vi_size = Some sz, vi_version = Some (e_version e),
         vi_display = e_display e, vi_available_targets = map fst (e_patches_to e),
         vi_patches = e_patches_to e\<rparr>"
  using assms by (simp add: detect_esm_version_def get_file_info_def)

text \<open>C3 at the entry of the VR edition, the one with two targets.\<close>

theorem resolve_registry_entry_witness:
  "detect_esm_version Map.empty [''Fallout4.esm'' \<mapsto> zeros 330553163] ''Fallout4.esm'' =
    Inr \<lparr>vi_exists = True, vi_size = Some 330553163, vi_version = Some ''vr'',
         vi_display = ''Fallout 4 VR'', vi_available_targets = [''1.10.163'', ''nextgen''],
         vi_patches = [(''1.10.163'', ''fallout4_322806.xdelta''),
                       (''nextgen'', ''fallout4_vr_to_ng.xdelta'')]\<rparr>"
  using resolve_registry_entry [of 330553163
      "\<lparr>e_version = ''vr'', e_display = ''Fallout 4 VR'',
          e_patches_to = [(''1.10.163'', ''fallout4_322806.xdelta''),
                          (''nextgen'', ''fallout4_vr_to_ng.xdelta'')]\<rparr>"
      "[''Fallout4.esm'' \<mapsto> zeros 330553163]" "''Fallout4.esm''" "zeros 330553163"
      Map.empty]
  by (simp add: ESM_VERSIONS_def)

text \<open>
  C4, as the code has it. For every path that holds a readable file or nothing, and for
  every target: the version is resolved, and \<open>get_patch_for_target\<close> returns the patch of
  the target exactly when the target is one of the available targets resolved for the
  file now at the path; for every other target it returns \<open>None\<close>, and the result is never
  an error. On a path that exists but cannot be opened as a file, the error of \<open>open\<close>
  leaves \<open>get_patch_for_target\<close> as an exception.
\<close>

theorem patch_iff_target_available:
  "(fsys p \<noteq> None \<or> unopenable p = None \<longrightarrow>
      (\<exists>v. detect_esm_version unopenable fsys p = Inr v \<and>
         (target \<in> set (vi_available_targets v) \<longrightarrow>
            (\<exists>name. map_of (vi_patches v) target = Some name \<and>
               get_patch_for_target unopenable fsys p target =
                 Inr (Some \<lparr>p_patch = name,
                            p_description = vi_display v @ arrow @ target,
                            p_source_version = vi_version v,
                            p_target_version = target\<rparr>))) \<and>
         (target \<notin> set (vi_available_targets v) \<longrightarrow>
            get_patch_for_target unopenable fsys p target = Inr None))) \<and>
   (\<forall>msg. fsys p = None \<and> unopenable p = Some msg \<longrightarrow>
      get_patch_for_target unopenable fsys p target = Inl (IOError msg))"
proof (intro conjI impI allI)
  assume readable: "fsys p \<noteq> None \<or> unopenable p = None"
  then have "\<exists>v. detect_esm_version unopenable fsys p = Inr v"
    by (rule detect_returns)
  then obtain v where v: "detect_esm_version unopenable fsys p = Inr v"
    by blast
  then have keys: "vi_available_targets v = map fst (vi_patches v)"
    by (auto simp: detect_esm_version_def split: sum.splits file_info.splits option.splits)
  have "(target \<in> set (vi_available_targets v) \<longrightarrow>
            (\<exists>name. map_of (vi_patches v) target = Some name \<and>
               get_patch_for_target unopenable fsys p target =
                 Inr (Some \<lparr>p_patch = name,
                            p_description = vi_display v @ arrow @ target,
                            p_source_version = vi_version v,
                            p_target_version = target\<rparr>))) \<and>
         (target \<notin> set (vi_available_targets v) \<longrightarrow>
            get_patch_for_target unopenable fsys p target = Inr None)"
  proof (cases "target \<in> set (map fst (vi_patches v))")
    case True
    then have "map_of (vi_patches v) target \<noteq> None"
      by (simp add: map_of_eq_None_iff)
    then obtain name where "map_of (vi_patches v) target = Some name"
      by blast
    with True v show ?thesis
      by (simp add: keys get_patch_for_target_def subscript_def)
  next
    case False
    with v show ?thesis
      by (simp add: keys get_patch_for_target_def)
  qed
  with v show "\<exists>v. detect_esm_version unopenable fsys p = Inr v \<and>
         (target \<in> set (vi_available_targets v) \<longrightarrow>
            (\<exists>name. map_of (vi_patches v) target = Some name \<and>
               get_patch_for_target unopenable fsys p target =
                 Inr (Some \<lparr>p_patch = name,
                            p_description = vi_display v @ arrow @ target,
                            p_source_version = vi_version v,
                            p_target_version = target\<rparr>))) \<and>
         (target \<notin> set (vi_available_targets v) \<longrightarrow>
            get_patch_for_target unopenable fsys p target = Inr None)"
    by blast
next
  fix msg
  assume "fsys p = None \<and> unopenable p = Some msg"
  then show "get_patch_for_target unopenable fsys p target = Inl (IOError msg)"
    by (simp add: get_patch_for_target_def detect_esm_version_def get_file_info_def)
qed

text \<open>C4 on a file of the VR edition (\<open>nextgen\<close> is a target, \<open>vr\<close> is not), and on a
  directory.\<close>

theorem patch_iff_target_available_witness:
  "get_patch_for_target Map.empty [''Fallout4.esm'' \<mapsto> zeros 330553163]
       ''Fallout4.esm'' ''nextgen'' =
     Inr (Some \<lparr>p_patch = ''fallout4_vr_to_ng.xdelta'',
                p_description = ''Fallout 4 VR'' @ arrow @ ''nextgen'',
                p_source_version = Some ''vr'', p_target_version = ''nextgen''\<rparr>) \<and>
   get_patch_for_target Map.empty [''Fallout4.esm'' \<mapsto> zeros 330553163]
       ''Fallout4.esm'' ''vr'' = Inr None \<and>
   get_patch_for_target [''Data'' \<mapsto> ''Is a directory''] Map.empty ''Data'' ''vr'' =
     Inl (IOError ''Is a directory'')"
  using patch_iff_target_available
          [of "[''Fallout4.esm'' \<mapsto> zeros 330553163]" "''Fallout4.esm''" Map.empty "''nextgen''"]
        patch_iff_target_available
          [of "[''Fallout4.esm'' \<mapsto> zeros 330553163]" "''Fallout4.esm''" Map.empty "''vr''"]
        patch_iff_target_available
          [of Map.empty "''Data''" "[''Data'' \<mapsto> ''Is a directory'']" "''vr''"]
  by (simp add: detect_esm_version_def get_file_info_def ESM_VERSIONS_def)

text \<open>
  C4 as stated, for every path, fails on a path that exists but is no readable file: on
  the directory \<open>Data\<close> no target is available, and the result is not \<open>None\<close> but the error
  that \<open>open\<close> raised.
\<close>

theorem patch_for_directory_raises:
  "get_patch_for_target [''Data'' \<mapsto> ''[Errno 21] Is a directory''] Map.empty
       ''Data'' ''nextgen'' =
     Inl (IOError ''[Errno 21] Is a directory'') \<and>
   get_patch_for_target [''Data'' \<mapsto> ''[Errno 21] Is a directory''] Map.empty
       ''Data'' ''nextgen'' \<noteq> Inr None"
  by (simp add: get_patch_for_target_def detect_esm_version_def get_file_info_def)

text \<open>
  C5, as the code has it. An existing file whose size is no key of \<open>ESM_VERSIONS\<close> and is
  less than 1000 bytes away from a reference size of \<open>known_patched_sizes\<close> (at most 999
  bytes above or below 61741779 or 61598851) is classified \<open>patched\<close>, with the label of
  that reference size and no targets.
\<close>

theorem near_migrated_size_is_patched:
  assumes "fsys p = Some content"
    and "map_of ESM_VERSIONS (int (length content)) = None"
    and "\<bar>int (length content) - ref\<bar> < 1000"
    and "(ref, label) \<in> set known_patched_sizes"
  shows "detect_esm_version unopenable fsys p =
     Inr \<lparr>vi_exists = True, vi_size = Some (int (length content)),
          vi_version = Some ''patched'', vi_display = label,
          vi_available_targets = [], vi_patches = []\<rparr>"
  using assms
  by (auto simp: detect_esm_version_def get_file_info_def known_patched_sizes_def)

text \<open>C5 at 999 bytes above the first reference size.\<close>

theorem near_migrated_size_is_patched_witness:
  "detect_esm_version Map.empty [''Fallout4.esm'' \<mapsto> zeros 61742778] ''Fallout4.esm'' =
     Inr \<lparr>vi_exists = True, vi_size = Some 61742778, vi_version = Some ''patched'',
          vi_display = ''VR-compatible version (58.9 MB)'',
          vi_available_targets = [], vi_patches = []\<rparr>"
  using near_migrated_size_is_patched
          [of "[''Fallout4.esm'' \<mapsto> zeros 61742778]" "''Fallout4.esm''" "zeros 61742778"
              61741779 "''VR-compatible version (58.9 MB)''" Map.empty]
  by (simp add: ESM_VERSIONS_def known_patched_sizes_def)

text \<open>
  C5 as stated fails at the edge of the window: a file of 61742779 bytes is exactly 1000
  bytes above 61741779 and no key of the registry, and it is classified as unknown.
\<close>

theorem boundary_size_is_unknown:
  "map_of ESM_VERSIONS 61742779 = None \<and> \<bar>61742779 - 61741779\<bar> \<le> (1000::int) \<and>
   detect_esm_version Map.empty [''Fallout4.esm'' \<mapsto> zeros 61742779] ''Fallout4.esm'' =
     Inr \<lparr>vi_exists = True, vi_size = Some 61742779, vi_version = None,
          vi_display = ''Unknown version (61,742,779 bytes / 58.88 MB)'',
          vi_available_targets = [], vi_patches = []\<rparr>"
  by (simp add: detect_esm_version_def get_file_info_def known_patched_sizes_def ESM_VERSIONS_def
      fmt_commas_def fmt_mb_def hundredths_mb_def Let_def str_nat.simps commas.simps digit_def)

text \<open>
  C8. Version resolution is a function of what is now at the path: two states of the
  file system that hold the same there (whatever else differs) resolve to the same
  result, a returned dictionary or a raised error, so resolving twice without a change
  in between gives the same result twice.
\<close>

theorem detect_depends_on_file_only:
  assumes "fsys p = fsys' p"
    and "unopenable p = unopenable' p"
  shows "detect_esm_version unopenable fsys p = detect_esm_version unopenable' fsys' p"
  using assms by (simp add: detect_esm_version_def get_file_info_def split: option.splits)

text \<open>C8 before and after a backup appears beside the asset.\<close>

theorem detect_depends_on_file_only_witness:
  "detect_esm_version Map.empty [''Fallout4.esm'' \<mapsto> zeros 330745373] ''Fallout4.esm'' =
   detect_esm_version [''Data'' \<mapsto> ''Is a directory'']
     [''Fallout4.esm'' \<mapsto> zeros 330745373, ''Fallout4.esm.backup'' \<mapsto> zeros 330777465]
     ''Fallout4.esm''"
  using detect_depends_on_file_only
          [of "[''Fallout4.esm'' \<mapsto> zeros 330745373]" "''Fallout4.esm''"
              "[''Fallout4.esm'' \<mapsto> zeros 330745373,
                ''Fallout4.esm.backup'' \<mapsto> zeros 330777465]"
              Map.empty "[''Data'' \<mapsto> ''Is a directory'']"]
  by simp

text \<open>
  C9. In every branch of \<open>detect_esm_version\<close>, for a path with or without a file, the
  list \<open>available_targets\<close> of the dictionary it returns is the list of the keys of its
  \<open>patches\<close>; and it does return a dictionary for every path that holds a readable file
  or nothing.
\<close>

theorem targets_are_patch_keys:
  "(\<forall>v. detect_esm_version unopenable fsys p = Inr v \<longrightarrow>
      vi_available_targets v = map fst (vi_patches v)) \<and>
   (fsys p \<noteq> None \<or> unopenable p = None \<longrightarrow>
      (\<exists>v. detect_esm_version unopenable fsys p = Inr v))"
  by (auto simp: detect_esm_version_def get_file_info_def
      split: sum.splits file_info.splits option.splits)

text \<open>C9 on a file of the VR edition and on a path without a file.\<close>

theorem targets_are_patch_keys_witness:
  "vi_available_targets
     \<lparr>vi_exists = True, vi_size = Some 330553163, vi_version = Some ''vr'',
      vi_display = ''Fallout 4 VR'', vi_available_targets = [''1.10.163'', ''nextgen''],
      vi_patches = [(''1.10.163'', ''fallout4_322806.xdelta''),
                    (''nextgen'', ''fallout4_vr_to_ng.xdelta'')]\<rparr> =
   map fst (vi_patches
     \<lparr>vi_exists = True, vi_size = Some 330553163, vi_version = Some ''vr'',
      vi_display = ''Fallout 4 VR'', vi_available_targets = [''1.10.163'', ''nextgen''],
      vi_patches = [(''1.10.163'', ''fallout4_322806.xdelta''),
                    (''nextgen'', ''fallout4_vr_to_ng.xdelta'')]\<rparr>) \<and>
   detect_esm_version Map.empty [''Fallout4.esm'' \<mapsto> zeros 330553163] ''Fallout4.esm'' =
     Inr \<lparr>vi_exists = True, vi_size = Some 330553163, vi_version = Some ''vr'',
          vi_display = ''Fallout 4 VR'', vi_available_targets = [''1.10.163'', ''nextgen''],
          vi_patches = [(''1.10.163'', ''fallout4_322806.xdelta''),
                        (''nextgen'', ''fallout4_vr_to_ng.xdelta'')]\<rparr> \<and>
   (\<exists>v. detect_esm_version Map.empty [''Fallout4.esm'' \<mapsto> zeros 330553163] ''Missing.esm''
          = Inr v)"
  using targets_are_patch_keys
          [of Map.empty "[''Fallout4.esm'' \<mapsto> zeros 330553163]" "''Fallout4.esm''"]
        targets_are_patch_keys
          [of Map.empty "[''Fallout4.esm'' \<mapsto> zeros 330553163]" "''Missing.esm''"]
  by (simp add: detect_esm_version_def get_file_info_def ESM_VERSIONS_def)

text \<open>
  C10. For an existing file the legacy resolver \<open>identify_esm_version\<close> reports a patch
  exactly when the size is 330777465 or 330553163. At the size 330745373 of version
  1.10.163 it reports none (the size is unknown to it), while \<open>detect_esm_version\<close> offers
  the target \<open>nextgen\<close>: the two resolvers disagree there.
\<close>

theorem legacy_patch_iff_size:
  assumes "fsys p = Some content"
  shows "\<exists>r v. identify_esm_version unopenable fsys p = Inr r \<and>
           detect_esm_version unopenable fsys p = Inr v \<and>
           (fst r \<longleftrightarrow>
              int (length content) = 330777465 \<or> int (length content) = 330553163) \<and>
           (snd (snd r) \<noteq> None \<longleftrightarrow> fst r) \<and>
           (int (length content) = 330745373 \<longrightarrow>
              r = (False, ''Unknown ESM version (size: 330,745,373 bytes)'', None) \<and>
              vi_available_targets v = [''nextgen''])"
  using assms
  by (auto simp: identify_esm_version_def detect_esm_version_def get_file_info_def
      PATCH_MAPPINGS_def ESM_VERSIONS_def known_patched_sizes_def
      fmt_commas_def str_nat.simps commas.simps digit_def split: option.splits)

text \<open>C10 on a file of version 1.10.163.\<close>

theorem legacy_patch_iff_size_witness:
  "identify_esm_version Map.empty [''Fallout4.esm'' \<mapsto> zeros 330745373] ''Fallout4.esm'' =
     Inr (False, ''Unknown ESM version (size: 330,745,373 bytes)'', None) \<and>
   (\<exists>v. detect_esm_version Map.empty [''Fallout4.esm'' \<mapsto> zeros 330745373] ''Fallout4.esm''
           = Inr v \<and> vi_available_targets v = [''nextgen''])"
  using legacy_patch_iff_size
          [of "[''Fallout4.esm'' \<mapsto> zeros 330745373]" "''Fallout4.esm''" "zeros 330745373"
              Map.empty]
  by auto

subsection \<open>Backup and restore\<close>

text \<open>
  C6. When a backup exists at the backup path and the overwrite is not authorized (the
  answer to the dialog is no), \<open>create_backup\<close> fails with \<open>Backup cancelled by user\<close> and
  changes nothing: the asset, the existing backup and every other file are as before.
\<close>

theorem backup_refused_without_overwrite:
  assumes "files w (p @ ''.backup'') \<noteq> None"
  shows "create_backup False outcome w p = ((False, Text ''Backup cancelled by user''), w)"
  using assms by (simp add: create_backup_def)

text \<open>C6 on an asset of three bytes with an older backup of two.\<close>

theorem backup_refused_without_overwrite_witness:
  "create_backup False CopyOk
     \<lparr>files = [''Fallout4.esm'' \<mapsto> [1, 2, 3], ''Fallout4.esm.backup'' \<mapsto> [4, 5]],
      backup_created = False\<rparr> ''Fallout4.esm'' =
   ((False, Text ''Backup cancelled by user''),
    \<lparr>files = [''Fallout4.esm'' \<mapsto> [1, 2, 3], ''Fallout4.esm.backup'' \<mapsto> [4, 5]],
      backup_created = False\<rparr>)"
  using backup_refused_without_overwrite
          [of "\<lparr>files = [''Fallout4.esm'' \<mapsto> [1, 2, 3], ''Fallout4.esm.backup'' \<mapsto> [4, 5]],
                backup_created = False\<rparr>" "''Fallout4.esm''" CopyOk]
  by simp

text \<open>
  C7. Without a backup file \<open>restore_backup\<close> fails with \<open>No backup file found\<close> and changes
  nothing. With a backup file, the restore succeeds whenever the copy does, and after
  every successful restore the asset holds the bytes of the backup and the backup is
  still there, unchanged.
\<close>

theorem restore_backup_contract:
  "(files w (p @ ''.backup'') = None \<longrightarrow>
      restore_backup outcome w p = ((False, Text ''No backup file found''), w)) \<and>
   (\<forall>content. files w (p @ ''.backup'') = Some content \<longrightarrow>
      restore_backup CopyOk w p =
        ((True, Text ''Successfully restored from backup''),
         w\<lparr>files := (files w)(p \<mapsto> content)\<rparr>) \<and>
      (fst (fst (restore_backup outcome w p)) \<longrightarrow>
         files (snd (restore_backup outcome w p)) p = Some content \<and>
         files (snd (restore_backup outcome w p)) (p @ ''.backup'') = Some content))"
  by (auto simp: restore_backup_def Let_def os_remove_def copy2_def fun_upd_twist
      split: option.splits copy_outcome.splits)

text \<open>C7 without a backup, and with a backup of two bytes.\<close>

theorem restore_backup_contract_witness:
  "restore_backup CopyOk \<lparr>files = [''Fallout4.esm'' \<mapsto> [1, 2, 3]], backup_created = False\<rparr>
     ''Fallout4.esm'' =
     ((False, Text ''No backup file found''),
      \<lparr>files = [''Fallout4.esm'' \<mapsto> [1, 2, 3]], backup_created = False\<rparr>) \<and>
   files (snd (restore_backup CopyOk
     \<lparr>files = [''Fallout4.esm'' \<mapsto> [1, 2, 3], ''Fallout4.esm.backup'' \<mapsto> [4, 5]],
      backup_created = False\<rparr> ''Fallout4.esm'')) ''Fallout4.esm'' = Some [4, 5] \<and>
   files (snd (restore_backup CopyOk
     \<lparr>files = [''Fallout4.esm'' \<mapsto> [1, 2, 3], ''Fallout4.esm.backup'' \<mapsto> [4, 5]],
      backup_created = False\<rparr> ''Fallout4.esm'')) ''Fallout4.esm.backup'' = Some [4, 5]"
  using restore_backup_contract
          [of "\<lparr>files = [''Fallout4.esm'' \<mapsto> [1, 2, 3]], backup_created = False\<rparr>"
              "''Fallout4.esm''" CopyOk]
        restore_backup_contract
          [of "\<lparr>files = [''Fallout4.esm'' \<mapsto> [1, 2, 3], ''Fallout4.esm.backup'' \<mapsto> [4, 5]],
                backup_created = False\<rparr>" "''Fallout4.esm''" CopyOk]
  by simp

end
